theory Spec2Isabelle
  imports Complex_Main "HOL-Library.AList"
begin

section \<open>Images and the OpenCV calls made on them\<close>

text \<open>
  OpenCV, NumPy and the LBPH recogniser are external libraries. An image is modelled by
  what the library calls of the source return on it:
  \<^item> \<open>gray_mean\<close>: the value of \<^verbatim>\<open>np.mean(cv2.cvtColor(image, cv2.COLOR_RGB2GRAY))\<close>
    as computed inside the \<^verbatim>\<open>try\<close> block of \<^verbatim>\<open>detect_low_light\<close>; \<open>None\<close> when the
    conversion or the mean raises;
  \<^item> \<open>faces\<close>: the boxes returned by \<^verbatim>\<open>detectMultiScale\<close>, in order, each with the
    result of \<^verbatim>\<open>extract_face_features\<close> on it (\<open>None\<close> when the region is empty or the
    extraction raises);
  \<^item> \<open>equalized\<close>: the image computed by \<^verbatim>\<open>enhance_low_light_image\<close>; \<open>None\<close> when
    the equalisation raises.
\<close>

type_synonym features = "nat list"
type_synonym face_box = "nat \<times> nat \<times> nat \<times> nat"

datatype image = Image
  (gray_mean: "real option")
  (faces: "(face_box \<times> features option) list")
  (equalized: "image option")

definition detect_faces :: "image \<Rightarrow> face_box list" where
  "detect_faces img = map fst (faces img)"

definition extract_face_features :: "image \<Rightarrow> face_box \<Rightarrow> features option" where
  "extract_face_features img face_box =
     (case map_of (faces img) face_box of None \<Rightarrow> None | Some patch \<Rightarrow> patch)"

section \<open>The face recogniser (opencv\_face\_recognition.py)\<close>

text \<open>
  The state of an \<^verbatim>\<open>OpenCVFaceRecognizer\<close>. Python dictionaries keep insertion order,
  so both dictionaries are association lists: \<open>AList.update\<close> replaces the value of a
  present key in place and appends an absent key, \<open>AList.delete\<close> removes a key.
  \<open>lbph\<close> is what the last \<^verbatim>\<open>self.recognizer.train(faces, labels)\<close> call was given:
  the library keeps that model until the next call of \<^verbatim>\<open>train\<close>.
  Writing the pickle file (\<^verbatim>\<open>save_encodings\<close>) does not change this state and is left out.
\<close>

record recognizer =
  known_encodings :: "(string \<times> features list) list"
  label_map :: "(string \<times> int) list"
  next_label :: int
  model_trained :: bool
  lbph :: "(features \<times> int) list"

definition init_recognizer :: recognizer where
  "init_recognizer =
     \<lparr>known_encodings = [], label_map = [], next_label = 0, model_trained = False, lbph = []\<rparr>"

text \<open>
  \<^verbatim>\<open>_train_recognizer\<close>: returns \<open>False\<close> and leaves everything as it was when there is no
  identity, when a label is missing (the \<^verbatim>\<open>KeyError\<close> is caught) or when there is no
  sample; otherwise it trains on all samples and sets \<^verbatim>\<open>model_trained\<close>.
\<close>

fun training_data :: "(string \<times> int) list \<Rightarrow> (string \<times> features list) list \<Rightarrow> (features \<times> int) list option" where
  "training_data lm [] = Some []"
| "training_data lm ((student_id, face_samples) # rest) =
     (case map_of lm student_id of
        None \<Rightarrow> None
      | Some label \<Rightarrow>
          (case training_data lm rest of
             None \<Rightarrow> None
           | Some others \<Rightarrow> Some (map (\<lambda>face_sample. (face_sample, label)) face_samples @ others)))"

definition train_recognizer :: "recognizer \<Rightarrow> bool \<times> recognizer" where
  "train_recognizer r =
     (if known_encodings r = [] then (False, r)
      else case training_data (label_map r) (known_encodings r) of
        None \<Rightarrow> (False, r)
      | Some samples \<Rightarrow>
          if samples = [] then (False, r)
          else (True, r\<lparr>lbph := samples, model_trained := True\<rparr>))"

text \<open>
  \<^verbatim>\<open>register_face\<close>: exactly one detected face, whose features can be extracted; a label
  on the first enrolment only; the sample is appended and the list cut to its last five
  (\<^verbatim>\<open>samples[-5:]\<close>); then the recogniser is retrained. The result of the retraining is
  not looked at.
\<close>

definition last_five :: "'a list \<Rightarrow> 'a list" where
  "last_five xs = drop (length xs - 5) xs"

definition register_face :: "recognizer \<Rightarrow> string \<Rightarrow> image \<Rightarrow> bool \<times> recognizer" where
  "register_face r student_id img =
     (let fs = detect_faces img in
      if length fs = 0 then (False, r)
      else if length fs > 1 then (False, r)
      else case extract_face_features img (fs ! 0) of
        None \<Rightarrow> (False, r)
      | Some face_features \<Rightarrow>
          let r1 = (if map_of (label_map r) student_id = None
                    then r\<lparr>label_map := AList.update student_id (next_label r) (label_map r),
                           next_label := next_label r + 1\<rparr>
                    else r);
              old = (case map_of (known_encodings r1) student_id of None \<Rightarrow> [] | Some xs \<Rightarrow> xs);
              appended = old @ [face_features];
              kept = (if length appended > 5 then last_five appended else appended);
              r2 = r1\<lparr>known_encodings := AList.update student_id kept (known_encodings r1)\<rparr>
          in (True, snd (train_recognizer r2)))"

text \<open>\<^verbatim>\<open>remove_student\<close>: both entries are deleted, then the recogniser is retrained.\<close>

definition remove_student :: "recognizer \<Rightarrow> string \<Rightarrow> bool \<times> recognizer" where
  "remove_student r student_id =
     (let r1 = r\<lparr>known_encodings := AList.delete student_id (known_encodings r)\<rparr>;
          r2 = r1\<lparr>label_map := AList.delete student_id (label_map r1)\<rparr>
      in (True, snd (train_recognizer r2)))"

text \<open>
  Exceptions are values. \<open>TypeError_not_JSON_serializable t\<close> is what \<^verbatim>\<open>json.dumps\<close>
  raises on an object of type \<open>t\<close>, \<open>Binding_unsupported_type t\<close> what the \<^verbatim>\<open>sqlite3\<close>
  module raises when a parameter of type \<open>t\<close> is bound. \<open>Str_of e\<close> is the text \<^verbatim>\<open>str(e)\<close> of a Python exception,
  \<open>Invalid_image d\<close> the text \<^verbatim>\<open>f"Invalid image: {d}"\<close> and \<open>Status_and_detail c d\<close>
  the text of an \<^verbatim>\<open>HTTPException\<close> with status \<open>c\<close> and detail \<open>d\<close>.

  The result dictionaries of \<^verbatim>\<open>recognize_face\<close> and \<^verbatim>\<open>recognize_face_from_image\<close>
  are records in which an absent key is \<open>None\<close>. A message is one constructor for each
  message text of the source: \<open>No_faces_registered\<close> is "No faces registered in the
  system", \<open>No_face_detected\<close> is "No face detected in image", \<open>Student_not_found\<close> is
  "Face recognized but student not found", \<open>Face_mismatch b a\<close> is "Face does not match
  expected student. Recognized as b, but expected a", \<open>LOW_LIGHT_DETECTED b t\<close> is the
  message "LOW\_LIGHT\_DETECTED" with the keys brightness \<open>b\<close> and threshold \<open>t\<close>,
  \<open>Recognition_error d\<close> is \<^verbatim>\<open>f"Face recognition error: {d}"\<close>.
\<close>

datatype py_exception =
    TypeError_bytes_contains_str
  | TypeError_unexpected_keyword string string
  | TypeError_not_subscriptable
  | NameError string
  | KeyError string
  | IntegrityError_unique_attendance
  | TypeError_not_JSON_serializable string
  | Binding_unsupported_type string

datatype detail =
    Text string
  | Str_of py_exception
  | Invalid_image detail
  | Status_and_detail nat detail

datatype http_exception = HTTPException (status_code: nat) (http_detail: detail)

datatype message =
    No_faces_registered
  | No_face_detected
  | Multiple_faces_detected
  | Could_not_extract
  | Student_not_found
  | Confidence_too_low real
  | Recognized real
  | LOW_LIGHT_DETECTED real real
  | Face_mismatch string string
  | Not_in_database string
  | Recognition_error detail

record face_result =
  match :: bool
  message :: message
  confidence :: "real option"
  student_id :: "string option"
  student_name :: "string option"

definition no_match :: "message \<Rightarrow> real option \<Rightarrow> face_result" where
  "no_match m c = \<lparr>match = False, message = m, confidence = c, student_id = None, student_name = None\<rparr>"

text \<open>
  The first identity whose label is the predicted one (the loop with \<^verbatim>\<open>break\<close> over
  \<^verbatim>\<open>label_map.items()\<close>).
\<close>

fun student_of_label :: "(string \<times> int) list \<Rightarrow> int \<Rightarrow> string option" where
  "student_of_label [] label = None"
| "student_of_label ((sid, lbl) # rest) label =
     (if lbl = label then Some sid else student_of_label rest label)"

text \<open>
  \<^verbatim>\<open>recognize_face\<close>. \<open>predict\<close> is the library's \<^verbatim>\<open>LBPHFaceRecognizer.predict\<close>: from the
  trained model and a patch it gives a label and a distance.
\<close>

type_synonym predictor = "(features \<times> int) list \<Rightarrow> features \<Rightarrow> int \<times> real"

definition recognize_face :: "predictor \<Rightarrow> recognizer \<Rightarrow> image \<Rightarrow> real \<Rightarrow> face_result" where
  "recognize_face predict r img confidence_threshold =
     (if \<not> model_trained r then no_match No_faces_registered (Some 0)
      else let fs = detect_faces img in
        if length fs = 0 then no_match No_face_detected (Some 0)
        else if length fs > 1 then no_match Multiple_faces_detected (Some 0)
        else case extract_face_features img (fs ! 0) of
          None \<Rightarrow> no_match Could_not_extract (Some 0)
        | Some face_features \<Rightarrow>
            let (label, dist) = predict (lbph r) face_features;
                confidence_score = max 0 (100 - dist)
            in (case student_of_label (label_map r) label of
                  None \<Rightarrow> no_match Student_not_found (Some confidence_score)
                | Some sid \<Rightarrow>
                    if confidence_score < confidence_threshold
                    then \<lparr>match = False, message = Confidence_too_low confidence_score,
                          confidence = Some confidence_score, student_id = Some sid,
                          student_name = None\<rparr>
                    else \<lparr>match = True, message = Recognized confidence_score,
                          confidence = Some confidence_score, student_id = Some sid,
                          student_name = None\<rparr>))"

section \<open>Conditioning and recognition of a submitted image (app.py)\<close>

text \<open>
  The libraries that the request handlers call, taken as parameters:
  \<^item> \<open>imdecode\<close>: \<^verbatim>\<open>base64.b64decode\<close>, \<^verbatim>\<open>np.frombuffer\<close>, \<^verbatim>\<open>cv2.imdecode\<close> and the
    colour conversion of \<^verbatim>\<open>decode_base64_image\<close> on a text; \<open>Inl t\<close> when a step raises
    with text \<open>t\<close> (or \<^verbatim>\<open>imdecode\<close> returns \<^verbatim>\<open>None\<close>);
  \<^item> \<open>predict\<close>: the LBPH prediction;
  \<^item> \<open>scrub\<close>: \<^verbatim>\<open>bleach.clean\<close> and the regular-expression deletions of
    \<^verbatim>\<open>sanitize_input\<close>;
  \<^item> \<open>b64decode_ok\<close>: whether \<^verbatim>\<open>base64.b64decode\<close> accepts the text;
  \<^item> \<open>fromisoformat\<close>: \<^verbatim>\<open>datetime.fromisoformat\<close>, giving the wall-clock seconds of the
    parsed time, \<open>None\<close> when it raises.
\<close>

record libs =
  imdecode :: "string \<Rightarrow> string + image"
  predict :: predictor
  scrub :: "string \<Rightarrow> string"
  b64decode_ok :: "string \<Rightarrow> bool"
  fromisoformat :: "string \<Rightarrow> int option"

record config =
  LOW_LIGHT_THRESHOLD :: real
  APPLY_HISTOGRAM_EQUALIZATION :: bool

definition default_config :: config where
  "default_config = \<lparr>LOW_LIGHT_THRESHOLD = 50, APPLY_HISTOGRAM_EQUALIZATION = True\<rparr>"

definition MAX_OFFLINE_RECORDS_PER_BATCH :: nat where
  "MAX_OFFLINE_RECORDS_PER_BATCH = 50"

text \<open>
  A Python value that is either a \<^verbatim>\<open>str\<close> or the \<^verbatim>\<open>bytes\<close> made from one by
  \<^verbatim>\<open>.encode('utf-8')\<close>.
\<close>

datatype py_value = Str string | Bytes string

definition encode_utf8 :: "string \<Rightarrow> py_value" where
  "encode_utf8 s = Bytes s"

definition after_comma :: "string \<Rightarrow> string" where
  "after_comma s = takeWhile (\<lambda>c. c \<noteq> CHR '','') (tl (dropWhile (\<lambda>c. c \<noteq> CHR '','') s))"

text \<open>
  \<^verbatim>\<open>decode_base64_image\<close>. Its first statement is \<^verbatim>\<open>if ',' in image_data\<close>, with a
  \<^verbatim>\<open>str\<close> on the left. On a \<^verbatim>\<open>bytes\<close> object Python raises \<^verbatim>\<open>TypeError\<close> (a
  bytes-like object is required, not 'str'); the handler of the function turns every
  exception into an \<^verbatim>\<open>HTTPException\<close> with status 400.
\<close>

definition decode_base64_image :: "libs \<Rightarrow> py_value \<Rightarrow> http_exception + image" where
  "decode_base64_image L image_data =
     (case image_data of
        Bytes b \<Rightarrow> Inl (HTTPException 400 (Invalid_image (Str_of TypeError_bytes_contains_str)))
      | Str s \<Rightarrow>
          (case imdecode L (if CHR '','' \<in> set s then after_comma s else s) of
             Inl t \<Rightarrow> Inl (HTTPException 400 (Invalid_image (Text t)))
           | Inr img \<Rightarrow> Inr img))"

record low_light =
  brightness :: real
  is_low_light :: bool
  threshold :: real

text \<open>
  \<^verbatim>\<open>detect_low_light\<close>. Before it returns, the \<^verbatim>\<open>try\<close> block logs the result with
  \<^verbatim>\<open>details=json.dumps(result)\<close>. The entry \<^verbatim>\<open>is_low_light\<close> of the result is the
  comparison of a NumPy float with the threshold, a NumPy boolean, which \<^verbatim>\<open>json.dumps\<close>
  does not serialise: it raises \<^verbatim>\<open>TypeError\<close>, and the handler of the function returns
  the same answer as for every other exception of the block. The value is kept as a sum
  so that the statements after it stay in the model.
\<close>

definition json_dumps :: "low_light \<Rightarrow> py_exception + string" where
  "json_dumps result = Inl (TypeError_not_JSON_serializable ''bool_'')"

definition detect_low_light :: "config \<Rightarrow> image \<Rightarrow> low_light" where
  "detect_low_light cfg img =
     (case gray_mean img of
        Some avg_brightness \<Rightarrow>
          (let result = \<lparr>brightness = avg_brightness,
                         is_low_light = (avg_brightness < LOW_LIGHT_THRESHOLD cfg),
                         threshold = LOW_LIGHT_THRESHOLD cfg\<rparr>
           in case json_dumps result of
                Inr details \<Rightarrow> result
              | Inl e \<Rightarrow>
                  \<lparr>brightness = 0, is_low_light = False,
                   threshold = LOW_LIGHT_THRESHOLD cfg\<rparr>)
      | None \<Rightarrow>
          \<lparr>brightness = 0, is_low_light = False, threshold = LOW_LIGHT_THRESHOLD cfg\<rparr>)"

definition enhance_low_light_image :: "image \<Rightarrow> image" where
  "enhance_low_light_image img = (case equalized img of Some enhanced \<Rightarrow> enhanced | None \<Rightarrow> img)"

text \<open>
  The tables of the SQLite database that the handlers read and write. \<open>students\<close> maps
  the unique \<^verbatim>\<open>student_id\<close> to the name. A date is a day number and a time of day a
  number of seconds, both taken from a time in seconds.
\<close>

record attendance_row =
  a_student_id :: string
  a_student_name :: string
  a_date :: int
  a_check_in_time :: int
  a_method :: string
  a_confidence_score :: real
  a_is_offline :: nat

record session_row =
  s_student_id :: string
  s_session_token :: string
  qr_verified :: nat
  face_verified :: nat
  created_at :: int
  expires_at :: int

record db =
  students :: "(string \<times> string) list"
  attendance :: "attendance_row list"
  attendance_sessions :: "session_row list"

text \<open>
  \<^verbatim>\<open>recognize_face_from_image\<close> where the OpenCV recogniser is loaded
  (\<^verbatim>\<open>OPENCV_FACE_RECOGNITION_AVAILABLE and opencv_recognizer\<close>), which is the case
  whenever the module opencv\_face\_recognition of this repository can be imported.
  \<open>recognize_checked\<close> is the part that classifies and compares with the expected
  identity, \<open>recognize_decoded\<close> the part from the low-light check on.
\<close>

definition truthy :: "string option \<Rightarrow> bool" where
  "truthy v = (case v of None \<Rightarrow> False | Some s \<Rightarrow> s \<noteq> [])"

definition recognize_checked :: "libs \<Rightarrow> recognizer \<Rightarrow> db \<Rightarrow> image \<Rightarrow> string option \<Rightarrow> face_result" where
  "recognize_checked L r d img expected_student_id =
     (let result = recognize_face (predict L) r img 60 in
      if match result then
        (case student_id result of
           None \<Rightarrow> no_match (Recognition_error (Str_of (KeyError ''student_id''))) None
         | Some sid \<Rightarrow>
             if truthy expected_student_id \<and> Some sid \<noteq> expected_student_id
             then no_match
                    (Face_mismatch sid (case expected_student_id of Some e \<Rightarrow> e | None \<Rightarrow> []))
                    (confidence result)
             else (case map_of (students d) sid of
                     Some name \<Rightarrow>
                       \<lparr>match = True, message = message result, confidence = confidence result,
                        student_id = Some sid, student_name = Some name\<rparr>
                   | None \<Rightarrow> no_match (Not_in_database sid) None))
      else no_match (message result)
             (Some (case confidence result of Some c \<Rightarrow> c | None \<Rightarrow> 0)))"

definition recognize_decoded :: "config \<Rightarrow> libs \<Rightarrow> recognizer \<Rightarrow> db \<Rightarrow> image \<Rightarrow> string option \<Rightarrow> face_result" where
  "recognize_decoded cfg L r d img expected_student_id =
     (let low_light_result = detect_low_light cfg img in
      if is_low_light low_light_result then
        if APPLY_HISTOGRAM_EQUALIZATION cfg then
          (let enhanced = enhance_low_light_image img;
               enhanced_check = detect_low_light cfg enhanced
           in if is_low_light enhanced_check
              then no_match (LOW_LIGHT_DETECTED (brightness enhanced_check) (LOW_LIGHT_THRESHOLD cfg)) None
              else recognize_checked L r d enhanced expected_student_id)
        else no_match (LOW_LIGHT_DETECTED (brightness low_light_result) (LOW_LIGHT_THRESHOLD cfg)) None
      else recognize_checked L r d img expected_student_id)"

definition recognize_face_from_image :: "config \<Rightarrow> libs \<Rightarrow> recognizer \<Rightarrow> db \<Rightarrow> py_value \<Rightarrow> string option \<Rightarrow> face_result" where
  "recognize_face_from_image cfg L r d image_data expected_student_id =
     (case decode_base64_image L image_data of
        Inl e \<Rightarrow> no_match (Recognition_error (Status_and_detail (status_code e) (http_detail e))) None
      | Inr img \<Rightarrow> recognize_decoded cfg L r d img expected_student_id)"

section \<open>Input validation (security.py)\<close>

text \<open>
  A text is a list of code points below 256. Among these the decimal digits that \<^verbatim>\<open>\d\<close>
  matches are \<open>0\<close> to \<open>9\<close>, and the white space that \<^verbatim>\<open>str.strip\<close> removes is the
  space, the code points 9 to 13 and 28 to 31, the next-line character (133) and the
  no-break space (160). A text with a code point from 256 on (on which \<^verbatim>\<open>\d\<close> and
  \<^verbatim>\<open>str.strip\<close> know further digits and spaces) is outside this model.

  \<^verbatim>\<open>validate_student_id\<close> matches \<^verbatim>\<open>^\d{4}CIT\d{4}$\<close>; the \<^verbatim>\<open>$\<close> of Python also
  matches before one final newline. \<^verbatim>\<open>str.strip\<close> removes white space at both ends.
\<close>

definition is_digit :: "char \<Rightarrow> bool" where
  "is_digit c = (c \<in> set ''0123456789'')"

definition is_space :: "char \<Rightarrow> bool" where
  "is_space c = (c \<in> set [CHR '' '', CHR 0x09, CHR 0x0A, CHR 0x0B, CHR 0x0C, CHR 0x0D,
                            CHR 0x1C, CHR 0x1D, CHR 0x1E, CHR 0x1F, CHR 0x85, CHR 0xA0])"

definition strip :: "string \<Rightarrow> string" where
  "strip s = rev (dropWhile is_space (rev (dropWhile is_space s)))"

definition validate_student_id :: "string \<Rightarrow> bool" where
  "validate_student_id s =
     (let t = (if s \<noteq> [] \<and> last s = CHR 0x0A then butlast s else s)
      in length t = 11 \<and> list_all is_digit (take 4 t) \<and> take 3 (drop 4 t) = ''CIT''
         \<and> list_all is_digit (drop 7 t))"

definition sanitize_input :: "libs \<Rightarrow> string \<Rightarrow> string" where
  "sanitize_input L input_data = (if input_data = [] then [] else strip (scrub L input_data))"

definition validate_face_image :: "libs \<Rightarrow> string \<Rightarrow> bool" where
  "validate_face_image L image_data = (image_data \<noteq> [] \<and> b64decode_ok L image_data)"

text \<open>
  \<^verbatim>\<open>log_security_event(event_type, details, level="WARNING")\<close> has these three
  parameters and no \<^verbatim>\<open>**kwargs\<close>. A call is modelled by the keywords it passes: Python
  raises \<^verbatim>\<open>TypeError\<close> for a keyword that is not a parameter, before the body runs.
\<close>

definition log_security_event :: "string list \<Rightarrow> py_exception option" where
  "log_security_event keywords =
     (case filter (\<lambda>k. k \<notin> set [''event_type'', ''details'', ''level'']) keywords of
        [] \<Rightarrow> None
      | k # _ \<Rightarrow> Some (TypeError_unexpected_keyword ''log_security_event'' k))"

section \<open>Sessions and attendance (app.py)\<close>

text \<open>
  The clock of a request: \<open>CURRENT_TIMESTAMP\<close> is the time of the database (from which
  \<^verbatim>\<open>CURRENT_DATE\<close> and \<^verbatim>\<open>CURRENT_TIME\<close> derive), \<open>now\<close> is \<^verbatim>\<open>datetime.now()\<close> (from which
  \<^verbatim>\<open>date.today()\<close> derives), both in seconds.
\<close>

record clock =
  CURRENT_TIMESTAMP :: int
  now :: int

definition date_of :: "int \<Rightarrow> int" where
  "date_of t = t div 86400"

definition time_of :: "int \<Rightarrow> int" where
  "time_of t = t mod 86400"

text \<open>
  What a handler raises: an \<^verbatim>\<open>HTTPException\<close>, which its last lines re-raise, or another
  exception, which they turn into status 500 with the text of the exception. A handler
  that raises has not committed: the statements it ran on its connection are undone.
\<close>

datatype exn = Http http_exception | Py py_exception

definition surface :: "exn \<Rightarrow> http_exception" where
  "surface e = (case e of Http h \<Rightarrow> h | Py x \<Rightarrow> HTTPException 500 (Str_of x))"

text \<open>
  \<^verbatim>\<open>INSERT INTO attendance\<close> under \<^verbatim>\<open>UNIQUE(student_id, date)\<close>: a row whose identity and
  date are in the table raises the integrity error and writes nothing.
\<close>

definition same_day :: "attendance_row \<Rightarrow> attendance_row \<Rightarrow> bool" where
  "same_day x y = (a_student_id x = a_student_id y \<and> a_date x = a_date y)"

definition insert_attendance :: "attendance_row \<Rightarrow> attendance_row list \<Rightarrow> py_exception + attendance_row list" where
  "insert_attendance row tbl =
     (if list_ex (same_day row) tbl then Inl IntegrityError_unique_attendance
      else Inr (tbl @ [row]))"

definition cleanup_expired_sessions :: "db \<Rightarrow> clock \<Rightarrow> db" where
  "cleanup_expired_sessions d clk =
     d\<lparr>attendance_sessions :=
         filter (\<lambda>s. \<not> expires_at s < CURRENT_TIMESTAMP clk) (attendance_sessions d)\<rparr>"

text \<open>
  Line 20 of app.py is \<^verbatim>\<open>from datetime import datetime, date\<close> and no other line binds
  the name \<^verbatim>\<open>timedelta\<close>, so evaluating it in \<^verbatim>\<open>validate_attendance_token\<close> raises
  \<^verbatim>\<open>NameError\<close>. The value is kept as a sum so that the statements after it stay in the
  model.
\<close>

definition timedelta :: "py_exception + (int \<Rightarrow> int)" where
  "timedelta = Inl (NameError ''timedelta'')"

record token_response =
  t_success :: bool
  t_message :: string
  t_studentId :: string
  t_studentName :: string

text \<open>
  \<^verbatim>\<open>validate_attendance_token\<close> on the value of the key \<^verbatim>\<open>token\<close> of the request
  (\<open>None\<close> when the key is absent). The purge of expired sessions is committed by
  \<^verbatim>\<open>cleanup_expired_sessions\<close> itself; the \<^verbatim>\<open>DELETE\<close> and the \<^verbatim>\<open>INSERT\<close> of the handler
  are committed together after the insertion.
\<close>

definition validate_attendance_token_body :: "db \<Rightarrow> clock \<Rightarrow> string option \<Rightarrow> (exn + token_response) \<times> db" where
  "validate_attendance_token_body d clk token_field =
     (case token_field of
        None \<Rightarrow> (Inl (Http (HTTPException 400 (Text ''Token is required''))), d)
      | Some raw \<Rightarrow>
          (let token = strip raw in
           if token = [] \<or> length token < 10
           then (Inl (Http (HTTPException 400 (Text ''Invalid token format''))), d)
           else
             (let sid = (if length token \<ge> 15 then take 15 token else token) in
              if \<not> validate_student_id sid
              then (Inl (Http (HTTPException 400 (Text ''Invalid student ID in token''))), d)
              else
                (case map_of (students d) sid of
                   None \<Rightarrow> (Inl (Http (HTTPException 404 (Text ''Student not found''))), d)
                 | Some name \<Rightarrow>
                     (let d1 = cleanup_expired_sessions d clk;
                          kept = filter (\<lambda>s. s_student_id s \<noteq> sid) (attendance_sessions d1)
                      in (case timedelta of
                            Inl e \<Rightarrow> (Inl (Py e), d1)
                          | Inr seconds \<Rightarrow>
                              (Inr \<lparr>t_success = True,
                                    t_message = ''QR verified. Proceed to face verification.'',
                                    t_studentId = sid, t_studentName = name\<rparr>,
                               d1\<lparr>attendance_sessions := kept @
                                  [\<lparr>s_student_id = sid, s_session_token = token, qr_verified = 1,
                                    face_verified = 0, created_at = CURRENT_TIMESTAMP clk,
                                    expires_at = now clk + seconds 60\<rparr>]\<rparr>)))))))"

definition validate_attendance_token :: "db \<Rightarrow> clock \<Rightarrow> string option \<Rightarrow> (http_exception + token_response) \<times> db" where
  "validate_attendance_token d clk token_field =
     (case validate_attendance_token_body d clk token_field of
        (Inl e, d') \<Rightarrow> (Inl (surface e), d')
      | (Inr response, d') \<Rightarrow> (Inr response, d'))"

record face_verification_request =
  studentId :: string
  studentName :: string
  image_str :: string

text \<open>
  The two answers of \<^verbatim>\<open>verify_face\<close>: the one for a face without a match carries the
  message of the face result, the one after the commit the text
  \<^verbatim>\<open>f"Attendance marked for {data.studentId}"\<close>, the identity, the name and the method.
\<close>

datatype verify_message =
    Face_verification_failed message
  | Attendance_marked_for string

record verify_response =
  v_success :: bool
  v_verified :: bool
  v_message :: verify_message
  v_confidenceScore :: real
  v_studentId :: "string option"
  v_studentName :: "string option"
  v_method :: "string option"

text \<open>
  The last part of \<^verbatim>\<open>verify_face\<close> (from "Face verification succeeded" on): the session
  is marked, the name is read and the attendance row of today is inserted with the method
  tag \<^verbatim>\<open>qr_face\<close>; all of it is committed together.
\<close>

definition mark_attendance :: "db \<Rightarrow> clock \<Rightarrow> string \<Rightarrow> session_row \<Rightarrow> face_result \<Rightarrow> (exn + verify_response) \<times> db" where
  "mark_attendance d clk sid session result =
     (let marked = map (\<lambda>s. if s_student_id s = sid \<and> s_session_token s = s_session_token session
                             then s\<lparr>face_verified := 1\<rparr> else s) (attendance_sessions d)
      in case map_of (students d) sid of
           None \<Rightarrow> (Inl (Py TypeError_not_subscriptable), d)
         | Some name \<Rightarrow>
             (case confidence result of
                None \<Rightarrow> (Inl (Py (KeyError ''confidence'')), d)
              | Some c \<Rightarrow>
                  (case insert_attendance
                          \<lparr>a_student_id = sid, a_student_name = name,
                           a_date = date_of (CURRENT_TIMESTAMP clk),
                           a_check_in_time = time_of (CURRENT_TIMESTAMP clk),
                           a_method = ''qr_face'', a_confidence_score = c, a_is_offline = 0\<rparr>
                          (attendance d) of
                     Inl e \<Rightarrow> (Inl (Py e), d)
                   | Inr tbl \<Rightarrow>
                       (Inr \<lparr>v_success = True, v_verified = True,
                             v_message = Attendance_marked_for sid, v_confidenceScore = c,
                             v_studentId = Some sid, v_studentName = Some name,
                             v_method = Some ''qr_face''\<rparr>,
                        d\<lparr>attendance_sessions := marked, attendance := tbl\<rparr>))))"

text \<open>
  \<^verbatim>\<open>verify_face\<close>. The image text of the request is encoded to \<^verbatim>\<open>bytes\<close> before it is
  given to \<^verbatim>\<open>recognize_face_from_image\<close>. When the result is no match, the handler first
  calls \<^verbatim>\<open>log_security_event\<close> with the keywords \<^verbatim>\<open>student_id\<close> and \<^verbatim>\<open>level\<close>.
  The administrator login that the route depends on lies outside.
\<close>

definition live_session :: "db \<Rightarrow> clock \<Rightarrow> string \<Rightarrow> session_row option" where
  "live_session d clk sid =
     find (\<lambda>s. s_student_id s = sid \<and> qr_verified s = 1 \<and> face_verified s = 0
                \<and> expires_at s > CURRENT_TIMESTAMP clk) (attendance_sessions d)"

definition verify_face_body :: "config \<Rightarrow> libs \<Rightarrow> recognizer \<Rightarrow> db \<Rightarrow> clock \<Rightarrow> face_verification_request \<Rightarrow> (exn + verify_response) \<times> db" where
  "verify_face_body cfg L r d clk data =
     (if \<not> validate_student_id (studentId data)
      then (Inl (Http (HTTPException 400 (Text ''Invalid student ID format''))), d)
      else if sanitize_input L (studentName data) = []
      then (Inl (Http (HTTPException 400 (Text ''Student name is required''))), d)
      else if \<not> validate_face_image L (image_str data)
      then (Inl (Http (HTTPException 400 (Text ''Invalid image data''))), d)
      else
        (case live_session d clk (studentId data) of
           None \<Rightarrow>
             (Inl (Http (HTTPException 400 (Text ''QR verification required before face scan.''))), d)
         | Some session \<Rightarrow>
             (let result = recognize_face_from_image cfg L r d (encode_utf8 (image_str data))
                             (Some (studentId data))
              in if \<not> match result then
                   (case log_security_event [''student_id'', ''level''] of
                      Some e \<Rightarrow> (Inl (Py e), d)
                    | None \<Rightarrow>
                        (Inr \<lparr>v_success = False, v_verified = False,
                              v_message = Face_verification_failed (message result),
                              v_confidenceScore = 0, v_studentId = None,
                              v_studentName = None, v_method = None\<rparr>, d))
                 else mark_attendance d clk (studentId data) session result)))"

definition verify_face :: "config \<Rightarrow> libs \<Rightarrow> recognizer \<Rightarrow> db \<Rightarrow> clock \<Rightarrow> face_verification_request \<Rightarrow> (http_exception + verify_response) \<times> db" where
  "verify_face cfg L r d clk data =
     (case verify_face_body cfg L r d clk data of
        (Inl e, d') \<Rightarrow> (Inl (surface e), d')
      | (Inr response, d') \<Rightarrow> (Inr response, d'))"

section \<open>Offline batches (app.py)\<close>

record offline_attendance_record =
  o_studentId :: string
  o_studentName :: string
  o_image :: string
  o_timestamp :: string
  o_syncStatus :: string

datatype item_message =
    Face_message message
  | Synced
  | Error_processing py_exception

record item_result =
  i_studentId :: string
  i_success :: bool
  i_message :: item_message

text \<open>
  The state of the loop of \<^verbatim>\<open>sync_offline_attendance\<close>: the attendance table as the
  cursor of the handler sees it, the list \<^verbatim>\<open>results\<close> and the two counters.
\<close>

record sync_state =
  tbl :: "attendance_row list"
  results :: "item_result list"
  success_count :: nat
  failure_count :: nat

definition replace_Z :: "string \<Rightarrow> string" where
  "replace_Z s = concat (map (\<lambda>c. if c = CHR ''Z'' then ''+00:00'' else [c]) s)"

text \<open>
  The date and time of an item: \<^verbatim>\<open>timestamp.date()\<close> and \<^verbatim>\<open>timestamp.time()\<close> of the
  parsed client timestamp, or \<^verbatim>\<open>date.today()\<close> and \<^verbatim>\<open>datetime.now().time()\<close> when parsing
  raises.
\<close>

definition resolved_time :: "libs \<Rightarrow> clock \<Rightarrow> offline_attendance_record \<Rightarrow> int \<times> int" where
  "resolved_time L clk record =
     (case fromisoformat L (replace_Z (o_timestamp record)) of
        Some t \<Rightarrow> (date_of t, time_of t)
      | None \<Rightarrow> (date_of (now clk), time_of (now clk)))"

text \<open>
  The \<^verbatim>\<open>INSERT\<close> of a matched item, as the loop gives it to \<^verbatim>\<open>cursor.execute\<close>: five
  parameters (identity, name and confidence of the face result, a \<^verbatim>\<open>datetime.date\<close> and a
  \<^verbatim>\<open>datetime.time\<close>) and two literals of the statement, the method tag
  \<^verbatim>\<open>face_recognition\<close> and \<^verbatim>\<open>is_offline\<close> 1.
\<close>

record offline_insert =
  p_student_id :: string
  p_student_name :: string
  p_date :: int
  p_check_in_time :: int
  l_method :: string
  p_confidence_score :: real
  l_is_offline :: nat

definition offline_insert_values :: "libs \<Rightarrow> clock \<Rightarrow> offline_attendance_record \<Rightarrow> face_result \<Rightarrow> py_exception + offline_insert" where
  "offline_insert_values L clk record face_result =
     (case student_id face_result of
        None \<Rightarrow> Inl (KeyError ''student_id'')
      | Some sid \<Rightarrow>
          (case student_name face_result of
             None \<Rightarrow> Inl (KeyError ''student_name'')
           | Some name \<Rightarrow>
               (case confidence face_result of
                  None \<Rightarrow> Inl (KeyError ''confidence'')
                | Some c \<Rightarrow>
                    Inr \<lparr>p_student_id = sid, p_student_name = name,
                         p_date = fst (resolved_time L clk record),
                         p_check_in_time = snd (resolved_time L clk record),
                         l_method = ''face_recognition'', p_confidence_score = c,
                         l_is_offline = 1\<rparr>)))"

text \<open>
  Executing that statement. The \<^verbatim>\<open>sqlite3\<close> module binds \<^verbatim>\<open>None\<close>, integers, floats,
  texts and bytes, and through its default adapters \<^verbatim>\<open>datetime.date\<close> and
  \<^verbatim>\<open>datetime.datetime\<close>; for a \<^verbatim>\<open>datetime.time\<close> it has no adapter and raises when the
  parameter is bound, before a row is looked at. The value is kept as a sum so that the
  insertion stays in the model.
\<close>

definition bind_time :: "int \<Rightarrow> py_exception + int" where
  "bind_time t = Inl (Binding_unsupported_type ''datetime.time'')"

definition execute_offline_insert :: "offline_insert \<Rightarrow> attendance_row list \<Rightarrow> py_exception + attendance_row list" where
  "execute_offline_insert v t =
     (case bind_time (p_check_in_time v) of
        Inl e \<Rightarrow> Inl e
      | Inr bound_time \<Rightarrow>
          insert_attendance
            \<lparr>a_student_id = p_student_id v, a_student_name = p_student_name v,
             a_date = p_date v, a_check_in_time = bound_time, a_method = l_method v,
             a_confidence_score = p_confidence_score v, a_is_offline = l_is_offline v\<rparr> t)"

text \<open>
  The body of the loop after the face of the item has been looked at; every exception
  of the body is caught for the item alone and counted as a failure.
\<close>

definition sync_outcome :: "libs \<Rightarrow> clock \<Rightarrow> sync_state \<Rightarrow> offline_attendance_record \<Rightarrow> face_result \<Rightarrow> sync_state" where
  "sync_outcome L clk st record face_result =
     (if \<not> match face_result
      then st\<lparr>results := results st @
                 [\<lparr>i_studentId = o_studentId record, i_success = False,
                   i_message = Face_message (message face_result)\<rparr>],
              failure_count := failure_count st + 1\<rparr>
      else
        (case (case offline_insert_values L clk record face_result of
                 Inl e \<Rightarrow> Inl e
               | Inr v \<Rightarrow> execute_offline_insert v (tbl st)) of
           Inr tbl' \<Rightarrow>
             st\<lparr>tbl := tbl',
                results := results st @
                  [\<lparr>i_studentId = o_studentId record, i_success = True, i_message = Synced\<rparr>],
                success_count := success_count st + 1\<rparr>
         | Inl e \<Rightarrow>
             st\<lparr>results := results st @
                  [\<lparr>i_studentId = o_studentId record, i_success = False,
                    i_message = Error_processing e\<rparr>],
                failure_count := failure_count st + 1\<rparr>))"

text \<open>
  The loop, with the call of \<^verbatim>\<open>recognize_face_from_image\<close> on an item as the parameter
  \<open>face\<close>. The handler calls it as \<open>item_face\<close>: the image text of the item is encoded to
  \<^verbatim>\<open>bytes\<close> and the identity of the item is the expected one.
\<close>

fun sync_loop :: "libs \<Rightarrow> clock \<Rightarrow> (offline_attendance_record \<Rightarrow> face_result) \<Rightarrow> sync_state \<Rightarrow> offline_attendance_record list \<Rightarrow> sync_state" where
  "sync_loop L clk face st [] = st"
| "sync_loop L clk face st (record # rest) =
     sync_loop L clk face (sync_outcome L clk st record (face record)) rest"

definition item_face :: "config \<Rightarrow> libs \<Rightarrow> recognizer \<Rightarrow> db \<Rightarrow> offline_attendance_record \<Rightarrow> face_result" where
  "item_face cfg L r d record =
     recognize_face_from_image cfg L r d (encode_utf8 (o_image record)) (Some (o_studentId record))"

record sync_response =
  r_results :: "item_result list"
  r_total :: nat
  r_success :: nat
  r_failed :: nat

definition sync_offline_attendance :: "config \<Rightarrow> libs \<Rightarrow> recognizer \<Rightarrow> db \<Rightarrow> clock \<Rightarrow> offline_attendance_record list \<Rightarrow> sync_response \<times> db" where
  "sync_offline_attendance cfg L r d clk records =
     (let st = sync_loop L clk (item_face cfg L r d)
                 \<lparr>tbl = attendance d, results = [], success_count = 0, failure_count = 0\<rparr> records
      in (\<lparr>r_results = results st, r_total = length records,
           r_success = success_count st, r_failed = failure_count st\<rparr>,
          d\<lparr>attendance := tbl st\<rparr>))"

section \<open>Properties of tables and sample data\<close>

definition unique_per_day :: "attendance_row list \<Rightarrow> bool" where
  "unique_per_day t = distinct (map (\<lambda>x. (a_student_id x, a_date x)) t)"

text \<open>
  A stand-in for the LBPH prediction in the examples: the label of the nearest training
  sample, by the sum of the absolute differences of the pixels.
\<close>

fun l1_distance :: "features \<Rightarrow> features \<Rightarrow> nat" where
  "l1_distance [] ys = sum_list ys"
| "l1_distance xs [] = sum_list xs"
| "l1_distance (x # xs) (y # ys) = (if x \<le> y then y - x else x - y) + l1_distance xs ys"

fun nearest_sample :: predictor where
  "nearest_sample [] patch = (-1, 1000)"
| "nearest_sample ((sample, label) # rest) patch =
     (let d = real (l1_distance sample patch); (l', d') = nearest_sample rest patch
      in if rest = [] \<or> d \<le> d' then (label, d) else (l', d'))"

definition face_A :: image where
  "face_A = Image (Some 120) [((10, 110, 110, 10), Some [10, 20, 30, 40])] None"

definition face_B :: image where
  "face_B = Image (Some 130) [((20, 120, 120, 20), Some [200, 210, 220, 230])] None"

definition empty_room :: image where
  "empty_room = Image (Some 140) [] None"

definition unreadable_face_B :: image where
  "unreadable_face_B = Image None [((20, 120, 120, 20), Some [200, 210, 220, 230])] None"

definition sample_libs :: libs where
  "sample_libs =
     \<lparr>imdecode = (\<lambda>s. if s = ''QUFB'' then Inr face_A
                       else if s = ''QkJC'' then Inr face_B
                       else if s = ''Q0ND'' then Inr unreadable_face_B
                       else Inl ''Failed to decode image''),
      predict = nearest_sample,
      scrub = (\<lambda>s. s),
      b64decode_ok = (\<lambda>s. length s mod 4 = 0),
      fromisoformat = (\<lambda>s. if s = ''1970-01-03T00:00:10+00:00'' then Some 172810 else None)\<rparr>"

definition id_A :: string where
  "id_A = ''2022CIT0043''"

definition id_B :: string where
  "id_B = ''2022CIT0049''"

definition two_enrolled :: recognizer where
  "two_enrolled = snd (register_face (snd (register_face init_recognizer id_A face_A)) id_B face_B)"

definition sample_db :: db where
  "sample_db =
     \<lparr>students = [(id_A, ''Amrutha M''), (id_B, ''C M Shalini'')],
      attendance = [],
      attendance_sessions =
        [\<lparr>s_student_id = id_A, s_session_token = id_A, qr_verified = 1, face_verified = 0,
          created_at = 1000, expires_at = 1060\<rparr>]\<rparr>"

definition request_A_with_face_B :: face_verification_request where
  "request_A_with_face_B = \<lparr>studentId = id_A, studentName = ''Amrutha M'', image_str = ''QkJC''\<rparr>"

definition five_enrolled :: recognizer where
  "five_enrolled =
     \<lparr>known_encodings = [(''2022CIT0043'', [[1], [2], [3], [4], [5]])],
      label_map = [(''2022CIT0043'', 0)], next_label = 1, model_trained = True,
      lbph = [([1], 0), ([2], 0), ([3], 0), ([4], 0), ([5], 0)]\<rparr>"

definition request_A :: face_verification_request where
  "request_A = \<lparr>studentId = id_A, studentName = ''Amrutha M'', image_str = ''QUFB''\<rparr>"

definition session_A :: session_row where
  "session_A =
     \<lparr>s_student_id = id_A, s_session_token = id_A, qr_verified = 1, face_verified = 0,
      created_at = 1000, expires_at = 1060\<rparr>"

definition matched_A :: face_result where
  "matched_A =
     \<lparr>match = True, message = Recognized 100, confidence = Some 100,
      student_id = Some id_A, student_name = Some ''Amrutha M''\<rparr>"

definition marked_db :: db where
  "marked_db =
     snd (mark_attendance sample_db \<lparr>CURRENT_TIMESTAMP = 1030, now = 1030\<rparr> id_A session_A matched_A)"

definition offline_item_A :: offline_attendance_record where
  "offline_item_A =
     \<lparr>o_studentId = id_A, o_studentName = ''Amrutha M'', o_image = ''QUFB'',
      o_timestamp = ''1970-01-03T00:00:10Z'', o_syncStatus = ''pending''\<rparr>"

definition offline_item_B :: offline_attendance_record where
  "offline_item_B =
     \<lparr>o_studentId = id_B, o_studentName = ''C M Shalini'', o_image = ''no image'',
      o_timestamp = ''yesterday'', o_syncStatus = ''pending''\<rparr>"

definition empty_state :: sync_state where
  "empty_state = \<lparr>tbl = [], results = [], success_count = 0, failure_count = 0\<rparr>"


definition failed_item :: "(offline_attendance_record \<Rightarrow> face_result) \<Rightarrow> offline_attendance_record \<Rightarrow> item_result" where
  "failed_item face record =
     \<lparr>i_studentId = o_studentId record, i_success = False,
      i_message = Face_message (message (face record))\<rparr>"

definition raised :: "item_result \<Rightarrow> bool" where
  "raised e = (case i_message e of Error_processing x \<Rightarrow> True | _ \<Rightarrow> False)"


section \<open>The recogniser: templates and the trained flag\<close>

lemma train_known: "known_encodings (snd (train_recognizer r)) = known_encodings r"
  by (simp add: train_recognizer_def split: option.splits)

lemma train_keeps_trained: "model_trained r \<Longrightarrow> model_trained (snd (train_recognizer r))"
  by (simp add: train_recognizer_def split: option.splits)

lemma register_keeps_trained: "model_trained r \<Longrightarrow> model_trained (snd (register_face r sid img))"
  by (simp add: register_face_def Let_def train_keeps_trained split: option.splits)

lemma remove_keeps_trained: "model_trained r \<Longrightarrow> model_trained (snd (remove_student r sid))"
  by (simp add: remove_student_def Let_def train_keeps_trained)

lemma two_enrolled_eq:
  "two_enrolled =
     \<lparr>known_encodings = [(id_A, [[10, 20, 30, 40]]), (id_B, [[200, 210, 220, 230]])],
      label_map = [(id_A, 0), (id_B, 1)], next_label = 2, model_trained = True,
      lbph = [([10, 20, 30, 40], 0), ([200, 210, 220, 230], 1)]\<rparr>"
  by (simp add: two_enrolled_def init_recognizer_def id_A_def id_B_def face_A_def face_B_def
      register_face_def detect_faces_def extract_face_features_def train_recognizer_def Let_def)

lemma recognize_B:
  "recognize_face nearest_sample two_enrolled face_B 60 =
     \<lparr>match = True, message = Recognized 100, confidence = Some 100, student_id = Some id_B,
      student_name = None\<rparr>"
  by (simp add: two_enrolled_eq recognize_face_def face_B_def detect_faces_def
      extract_face_features_def Let_def id_A_def id_B_def)

text \<open>
  C7. An identity with five stored templates that enrols a sixth keeps exactly five: the
  four youngest of the old ones followed by the new one, the oldest being dropped.
\<close>

theorem register_sixth_keeps_last_five:
  assumes "map_of (known_encodings r) sid = Some old" and "length old = 5"
      and "faces img = [(box, Some f)]"
  shows "fst (register_face r sid img)
       \<and> map_of (known_encodings (snd (register_face r sid img))) sid = Some (tl old @ [f])
       \<and> length (tl old @ [f]) = 5"
  using assms
  by (cases old) (simp_all add: register_face_def detect_faces_def extract_face_features_def Let_def
      train_known last_five_def update_conv')

theorem register_sixth_keeps_last_five_witness:
  "map_of (known_encodings five_enrolled) id_A = Some [[1], [2], [3], [4], [5]]
   \<and> length [[1], [2], [3], [4], [5::nat]] = 5
   \<and> faces face_A = [((10, 110, 110, 10), Some [10, 20, 30, 40])]
   \<and> fst (register_face five_enrolled id_A face_A)
   \<and> map_of (known_encodings (snd (register_face five_enrolled id_A face_A))) id_A
       = Some [[2], [3], [4], [5], [10, 20, 30, 40]]"
proof -
  have a: "map_of (known_encodings five_enrolled) id_A = Some [[1], [2], [3], [4], [5]]"
    by (simp add: five_enrolled_def id_A_def)
  have b: "length [[1], [2], [3], [4], [5::nat]] = 5" by simp
  have c: "faces face_A = [((10, 110, 110, 10), Some [10, 20, 30, 40])]" by (simp add: face_A_def)
  show ?thesis using register_sixth_keeps_last_five [OF a b c] a c by simp
qed

text \<open>
  C6. The claim is that an image without a face is always answered with "No face
  detected". \<^verbatim>\<open>recognize_face\<close> looks at \<^verbatim>\<open>model_trained\<close> before it detects faces: a
  recogniser that has never been trained answers "No faces registered in the system".
\<close>

theorem no_face_untrained_counterexample:
  "message (recognize_face nearest_sample init_recognizer empty_room 60) \<noteq> No_face_detected"
  by (simp add: recognize_face_def init_recognizer_def no_match_def)

text \<open>
  C6, as the code has it: on an image without a face the answer is "No face detected"
  when the model is trained and "No faces registered in the system" when it is not; in
  both cases there is no match and the confidence is 0.
\<close>

theorem no_face_by_model_state:
  "faces img = [] \<Longrightarrow>
     recognize_face p r img thr =
       no_match (if model_trained r then No_face_detected else No_faces_registered) (Some 0)"
  by (simp add: recognize_face_def detect_faces_def)

theorem no_face_by_model_state_witness:
  "faces empty_room = [] \<and> model_trained two_enrolled
   \<and> recognize_face nearest_sample two_enrolled empty_room 60 = no_match No_face_detected (Some 0)"
  using no_face_by_model_state [of empty_room nearest_sample two_enrolled 60]
  by (simp add: empty_room_def two_enrolled_eq)

text \<open>
  C3. The claim is that the model is untrained again once the last identity is removed.
  \<^verbatim>\<open>remove_student\<close> retrains, and \<^verbatim>\<open>_train_recognizer\<close> returns early when no identity is
  left: \<^verbatim>\<open>model_trained\<close> stays \<open>True\<close> and the library keeps the model of the removed
  identity. After one enrolment and the removal of that identity no template is left,
  the flag is still set, and a recognition is answered with "Face recognized but student
  not found" instead of "No faces registered in the system".
\<close>

theorem last_removal_leaves_model_trained:
  "model_trained (snd (register_face init_recognizer id_A face_A))
   \<and> known_encodings (snd (remove_student (snd (register_face init_recognizer id_A face_A)) id_A)) = []
   \<and> model_trained (snd (remove_student (snd (register_face init_recognizer id_A face_A)) id_A))
   \<and> message (recognize_face nearest_sample
         (snd (remove_student (snd (register_face init_recognizer id_A face_A)) id_A)) face_A 60)
       = Student_not_found"
  by (simp add: register_face_def remove_student_def train_recognizer_def init_recognizer_def
      face_A_def id_A_def detect_faces_def extract_face_features_def Let_def recognize_face_def
      no_match_def)

section \<open>The low-light check\<close>

text \<open>
  C10. When the brightness analysis raises, \<^verbatim>\<open>detect_low_light\<close> reports brightness 0 and
  no low light, and \<^verbatim>\<open>recognize_face_from_image\<close> goes on to classify the image as it
  was decoded, neither enhanced nor rejected.
\<close>

theorem low_light_check_fails_open:
  assumes "gray_mean img = None"
  shows "detect_low_light cfg img =
           \<lparr>brightness = 0, is_low_light = False, threshold = LOW_LIGHT_THRESHOLD cfg\<rparr>
       \<and> recognize_decoded cfg L r d img expected = recognize_checked L r d img expected
       \<and> (decode_base64_image L payload = Inr img \<longrightarrow>
            recognize_face_from_image cfg L r d payload expected
              = recognize_checked L r d img expected)"
  using assms
  by (simp add: detect_low_light_def recognize_decoded_def recognize_face_from_image_def)

theorem low_light_check_fails_open_witness:
  "gray_mean unreadable_face_B = None
   \<and> decode_base64_image sample_libs (Str ''Q0ND'') = Inr unreadable_face_B
   \<and> is_low_light (detect_low_light default_config unreadable_face_B) = False
   \<and> recognize_face_from_image default_config sample_libs two_enrolled sample_db
         (Str ''Q0ND'') (Some id_B)
       = \<lparr>match = True, message = Recognized 100, confidence = Some 100,
          student_id = Some id_B, student_name = Some ''C M Shalini''\<rparr>"
proof -
  have a: "gray_mean unreadable_face_B = None" by (simp add: unreadable_face_B_def)
  have b: "decode_base64_image sample_libs (Str ''Q0ND'') = Inr unreadable_face_B"
    by (simp add: decode_base64_image_def sample_libs_def)
  have c: "recognize_checked sample_libs two_enrolled sample_db unreadable_face_B (Some id_B)
     = \<lparr>match = True, message = Recognized 100, confidence = Some 100,
        student_id = Some id_B, student_name = Some ''C M Shalini''\<rparr>"
    by (simp add: recognize_checked_def recognize_face_def two_enrolled_eq unreadable_face_B_def
        detect_faces_def extract_face_features_def sample_libs_def Let_def id_A_def id_B_def
        truthy_def sample_db_def)
  show ?thesis
    using low_light_check_fails_open [OF a, where cfg = default_config and L = sample_libs
        and payload = "Str ''Q0ND''" and r = two_enrolled and d = sample_db
        and expected = "Some id_B"] a b c
    by simp
qed


section \<open>Opening and closing a session\<close>

lemma bytes_never_match: "\<not> match (recognize_face_from_image cfg L r d (encode_utf8 s) e)"
  by (simp add: recognize_face_from_image_def decode_base64_image_def encode_utf8_def no_match_def)

lemma valid_id_A: "validate_student_id id_A"
  by (simp add: validate_student_id_def id_A_def is_digit_def)

lemma live_A:
  "live_session sample_db \<lparr>CURRENT_TIMESTAMP = 1030, now = 1030\<rparr> id_A =
     Some \<lparr>s_student_id = id_A, s_session_token = id_A, qr_verified = 1, face_verified = 0,
           created_at = 1000, expires_at = 1060\<rparr>"
  by (simp add: live_session_def sample_db_def)

text \<open>
  C5. The claim is that a valid token of an existing identity replaces the session of
  that identity by a new one that expires 60 seconds later and returns identity and
  name. The expiry is computed as \<^verbatim>\<open>datetime.now() + timedelta(seconds=60)\<close> and
  \<^verbatim>\<open>timedelta\<close> is not imported: the handler answers with status 500 and the text of the
  \<^verbatim>\<open>NameError\<close>, and the table of sessions is as it was.
\<close>

theorem token_validation_raises_name_error:
  "validate_attendance_token sample_db \<lparr>CURRENT_TIMESTAMP = 1030, now = 1030\<rparr> (Some id_A)
     = (Inl (HTTPException 500 (Str_of (NameError ''timedelta''))), sample_db)"
  by (simp add: validate_attendance_token_def validate_attendance_token_body_def strip_def
      is_space_def id_A_def validate_student_id_def is_digit_def sample_db_def
      cleanup_expired_sessions_def timedelta_def surface_def Let_def)

lemma validate_attendance_token_never_succeeds:
  "\<exists>e. fst (validate_attendance_token d clk token_field) = Inl e"
  by (simp add: validate_attendance_token_def validate_attendance_token_body_def timedelta_def
      Let_def split: option.splits)

lemma validate_attendance_token_no_new_session:
  "set (attendance_sessions (snd (validate_attendance_token d clk token_field)))
     \<subseteq> set (attendance_sessions d)"
  by (auto simp add: validate_attendance_token_def validate_attendance_token_body_def
      timedelta_def Let_def cleanup_expired_sessions_def split: option.splits)

text \<open>
  C1. The claim is that closing the session of identity A with a face that the classifier
  matches to identity B fails with the mismatch reason and writes no attendance row.
  On the face of B the classifier matches B, and \<^verbatim>\<open>recognize_face_from_image\<close> on the text
  of the request answers with the mismatch. \<^verbatim>\<open>verify_face\<close> does not return it: it gives
  the image as \<^verbatim>\<open>bytes\<close>, on which decoding raises, and on every result without a match it
  calls \<^verbatim>\<open>log_security_event\<close> with the keyword \<^verbatim>\<open>student_id\<close>, which that function does
  not have. The request ends with status 500 and the text of the \<^verbatim>\<open>TypeError\<close>; the
  database is as it was.
\<close>

theorem mismatch_surfaces_as_500:
  "match (recognize_face (predict sample_libs) two_enrolled face_B 60)
   \<and> student_id (recognize_face (predict sample_libs) two_enrolled face_B 60) = Some id_B
   \<and> message (recognize_face_from_image default_config sample_libs two_enrolled sample_db
                 (Str (image_str request_A_with_face_B)) (Some id_A)) = Face_mismatch id_B id_A
   \<and> verify_face default_config sample_libs two_enrolled sample_db
        \<lparr>CURRENT_TIMESTAMP = 1030, now = 1030\<rparr> request_A_with_face_B
      = (Inl (HTTPException 500
               (Str_of (TypeError_unexpected_keyword ''log_security_event'' ''student_id''))),
         sample_db)"
proof -
  have p: "predict sample_libs = nearest_sample" by (simp add: sample_libs_def)
  have dec: "decode_base64_image sample_libs (Str ''QkJC'') = Inr face_B"
    by (simp add: decode_base64_image_def sample_libs_def)
  have passed: "recognize_decoded default_config sample_libs two_enrolled sample_db face_B (Some id_A)
      = recognize_checked sample_libs two_enrolled sample_db face_B (Some id_A)"
    by (simp add: recognize_decoded_def detect_low_light_def json_dumps_def default_config_def
        face_B_def)
  have chk: "message (recognize_checked sample_libs two_enrolled sample_db face_B (Some id_A))
      = Face_mismatch id_B id_A"
    by (simp add: recognize_checked_def p recognize_B truthy_def id_A_def id_B_def no_match_def)
  have v: "verify_face default_config sample_libs two_enrolled sample_db
        \<lparr>CURRENT_TIMESTAMP = 1030, now = 1030\<rparr> request_A_with_face_B
      = (Inl (HTTPException 500
               (Str_of (TypeError_unexpected_keyword ''log_security_event'' ''student_id''))),
         sample_db)"
    using valid_id_A
    by (simp add: verify_face_def verify_face_body_def request_A_with_face_B_def live_A
        bytes_never_match sanitize_input_def validate_face_image_def strip_def is_space_def
        sample_libs_def log_security_event_def surface_def)
  show ?thesis
    using chk v
    by (simp add: p recognize_B recognize_face_from_image_def request_A_with_face_B_def dec passed)
qed

text \<open>
  C4. The claim is that closing a session 61 seconds after it was opened with a lifetime
  of 60 seconds fails with a reason of its own, distinct from the one for a face without
  a token. \<^verbatim>\<open>verify_face\<close> selects the session with \<^verbatim>\<open>expires_at > CURRENT_TIMESTAMP\<close> in
  the query and has one answer when no row comes back: the session that expired a second
  ago and no session at all give the same status 400 with the same text.
\<close>

theorem expired_session_counterexample:
  "created_at (hd (attendance_sessions sample_db)) + 60
     = expires_at (hd (attendance_sessions sample_db))
   \<and> fst (verify_face default_config sample_libs two_enrolled sample_db
          \<lparr>CURRENT_TIMESTAMP = created_at (hd (attendance_sessions sample_db)) + 61, now = 1061\<rparr>
          request_A)
     = Inl (HTTPException 400 (Text ''QR verification required before face scan.''))
   \<and> fst (verify_face default_config sample_libs two_enrolled
          (sample_db\<lparr>attendance_sessions := []\<rparr>)
          \<lparr>CURRENT_TIMESTAMP = 1061, now = 1061\<rparr> request_A)
     = Inl (HTTPException 400 (Text ''QR verification required before face scan.''))"
  using valid_id_A
  by (simp add: verify_face_def verify_face_body_def request_A_def live_session_def sample_db_def
      sanitize_input_def validate_face_image_def strip_def is_space_def sample_libs_def
      surface_def)

lemma no_live_session:
  "\<forall>s\<in>set (attendance_sessions d).
      s_student_id s = sid \<longrightarrow> expires_at s \<le> CURRENT_TIMESTAMP clk
    \<Longrightarrow> live_session d clk sid = None"
  by (auto simp add: live_session_def find_None_iff)

text \<open>
  C4, as the code has it: a well-formed request for an identity all of whose sessions
  have reached their expiry is answered with status 400 and the text "QR verification
  required before face scan.", the answer for an identity without a session, and the
  database is not changed.
\<close>

theorem expired_session_is_no_session:
  assumes "validate_student_id (studentId data)" and "sanitize_input L (studentName data) \<noteq> []"
      and "validate_face_image L (image_str data)"
      and "\<forall>s\<in>set (attendance_sessions d).
             s_student_id s = studentId data \<longrightarrow> expires_at s \<le> CURRENT_TIMESTAMP clk"
  shows "verify_face cfg L r d clk data
           = (Inl (HTTPException 400 (Text ''QR verification required before face scan.'')), d)"
  using assms(1-3) no_live_session [OF assms(4)]
  by (simp add: verify_face_def verify_face_body_def surface_def)

theorem expired_session_is_no_session_witness:
  "validate_student_id (studentId request_A)
   \<and> sanitize_input sample_libs (studentName request_A) \<noteq> []
   \<and> validate_face_image sample_libs (image_str request_A)
   \<and> map expires_at (attendance_sessions sample_db) = [1060]
   \<and> verify_face default_config sample_libs two_enrolled sample_db
          \<lparr>CURRENT_TIMESTAMP = 1061, now = 1061\<rparr> request_A
       = (Inl (HTTPException 400 (Text ''QR verification required before face scan.'')),
          sample_db)"
proof -
  have a: "validate_student_id (studentId request_A)"
    using valid_id_A by (simp add: request_A_def)
  have b: "sanitize_input sample_libs (studentName request_A) \<noteq> []"
    by (simp add: request_A_def sanitize_input_def strip_def is_space_def sample_libs_def)
  have c: "validate_face_image sample_libs (image_str request_A)"
    by (simp add: request_A_def validate_face_image_def sample_libs_def)
  have e: "map expires_at (attendance_sessions sample_db) = [1060]"
    by (simp add: sample_db_def)
  have d: "\<forall>s\<in>set (attendance_sessions sample_db).
             s_student_id s = studentId request_A
               \<longrightarrow> expires_at s \<le> CURRENT_TIMESTAMP \<lparr>CURRENT_TIMESTAMP = 1061, now = 1061\<rparr>"
    by (simp add: sample_db_def)
  show ?thesis
    using expired_session_is_no_session [OF a b c d, of default_config two_enrolled] a b c e
    by simp
qed

section \<open>One attendance row for an identity and a day\<close>

lemma insert_attendance_unique:
  "unique_per_day t \<Longrightarrow> insert_attendance row t = Inr t' \<Longrightarrow> unique_per_day t'"
  by (auto simp add: insert_attendance_def unique_per_day_def list_ex_iff same_day_def
      split: if_splits)

lemma insert_attendance_rejects:
  "list_ex (same_day row) t \<Longrightarrow> insert_attendance row t = Inl IntegrityError_unique_attendance"
  by (simp add: insert_attendance_def)

lemma mark_attendance_unique:
  "unique_per_day (attendance d)
     \<Longrightarrow> unique_per_day (attendance (snd (mark_attendance d clk sid session result)))"
  by (auto simp add: mark_attendance_def Let_def split: option.splits sum.splits
      dest: insert_attendance_unique)

lemma verify_face_body_db:
  "snd (verify_face_body cfg L r d clk data) = d
   \<or> (\<exists>session result. snd (verify_face_body cfg L r d clk data)
          = snd (mark_attendance d clk (studentId data) session result))"
  by (auto simp add: verify_face_body_def Let_def split: option.splits)

lemma verify_face_snd:
  "snd (verify_face cfg L r d clk data) = snd (verify_face_body cfg L r d clk data)"
  by (simp add: verify_face_def split: prod.splits sum.splits)

lemma verify_face_unique:
  "unique_per_day (attendance d)
     \<Longrightarrow> unique_per_day (attendance (snd (verify_face cfg L r d clk data)))"
  using verify_face_body_db [of cfg L r d clk data]
    mark_attendance_unique [of d clk "studentId data"]
  by (auto simp add: verify_face_snd)

lemma execute_offline_insert_unique:
  "unique_per_day t \<Longrightarrow> execute_offline_insert v t = Inr t' \<Longrightarrow> unique_per_day t'"
  by (auto simp add: execute_offline_insert_def split: sum.splits dest: insert_attendance_unique)

lemma sync_outcome_unique:
  "unique_per_day (tbl st) \<Longrightarrow> unique_per_day (tbl (sync_outcome L clk st record fr))"
  by (auto simp add: sync_outcome_def split: sum.splits dest: execute_offline_insert_unique)

lemma sync_loop_unique:
  "unique_per_day (tbl st) \<Longrightarrow> unique_per_day (tbl (sync_loop L clk face st records))"
  by (induction records arbitrary: st) (simp_all add: sync_outcome_unique)

lemma sync_offline_attendance_unique:
  "unique_per_day (attendance d)
     \<Longrightarrow> unique_per_day (attendance (snd (sync_offline_attendance cfg L r d clk records)))"
  by (simp add: sync_offline_attendance_def Let_def sync_loop_unique)

lemma mark_attendance_rejects:
  assumes "list_ex (\<lambda>x. a_student_id x = sid \<and> a_date x = date_of (CURRENT_TIMESTAMP clk))
             (attendance d)"
  shows "snd (mark_attendance d clk sid session result) = d"
    and "\<exists>e. fst (mark_attendance d clk sid session result) = Inl (Py e)"
    and "map_of (students d) sid \<noteq> None \<and> confidence result \<noteq> None
           \<longrightarrow> fst (mark_attendance d clk sid session result)
                 = Inl (Py IntegrityError_unique_attendance)"
proof -
  have "list_ex (same_day \<lparr>a_student_id = sid, a_student_name = name,
                   a_date = date_of (CURRENT_TIMESTAMP clk), a_check_in_time = t,
                   a_method = m, a_confidence_score = c, a_is_offline = 0\<rparr>) (attendance d)"
    for name t m c
    using assms by (auto simp add: list_ex_iff same_day_def)
  then have ins: "insert_attendance \<lparr>a_student_id = sid, a_student_name = name,
                   a_date = date_of (CURRENT_TIMESTAMP clk), a_check_in_time = t,
                   a_method = m, a_confidence_score = c, a_is_offline = 0\<rparr> (attendance d)
        = Inl IntegrityError_unique_attendance" for name t m c
    by (rule insert_attendance_rejects)
  show "snd (mark_attendance d clk sid session result) = d"
    by (simp add: mark_attendance_def Let_def ins split: option.splits)
  show "\<exists>e. fst (mark_attendance d clk sid session result) = Inl (Py e)"
    by (simp add: mark_attendance_def Let_def ins split: option.splits)
  show "map_of (students d) sid \<noteq> None \<and> confidence result \<noteq> None
           \<longrightarrow> fst (mark_attendance d clk sid session result)
                 = Inl (Py IntegrityError_unique_attendance)"
    by (auto simp add: mark_attendance_def Let_def ins split: option.splits)
qed

lemma marked_db_eq:
  "marked_db = sample_db\<lparr>attendance :=
       [\<lparr>a_student_id = id_A, a_student_name = ''Amrutha M'', a_date = 0,
         a_check_in_time = 1030, a_method = ''qr_face'', a_confidence_score = 100,
         a_is_offline = 0\<rparr>],
     attendance_sessions :=
       [\<lparr>s_student_id = id_A, s_session_token = id_A, qr_verified = 1, face_verified = 1,
         created_at = 1000, expires_at = 1060\<rparr>]\<rparr>"
  by (simp add: marked_db_def mark_attendance_def sample_db_def session_A_def matched_A_def
      id_A_def insert_attendance_def date_of_def time_of_def Let_def)

text \<open>
  C2. No two attendance rows have the same identity and date: the part of \<^verbatim>\<open>verify_face\<close>
  that commits, the whole of \<^verbatim>\<open>verify_face\<close> and the offline batch keep it so. When the
  table has a row of the identity for today, the commit of \<^verbatim>\<open>verify_face\<close> raises, the
  database is left exactly as it was (the existing row is not overwritten and the session
  is not marked), and for a known student with a confidence the exception is the
  violation of \<^verbatim>\<open>UNIQUE(student_id, date)\<close>, which the handler returns with status 500.
\<close>

theorem one_attendance_row_per_day:
  assumes "unique_per_day (attendance d)"
  shows "unique_per_day (attendance (snd (mark_attendance d clk sid session result)))
       \<and> unique_per_day (attendance (snd (verify_face cfg L r d clk data)))
       \<and> unique_per_day (attendance (snd (sync_offline_attendance cfg L r d clk records)))
       \<and> (list_ex (\<lambda>x. a_student_id x = sid \<and> a_date x = date_of (CURRENT_TIMESTAMP clk))
             (attendance d)
            \<longrightarrow> snd (mark_attendance d clk sid session result) = d
              \<and> (\<exists>e. fst (mark_attendance d clk sid session result) = Inl (Py e))
              \<and> (map_of (students d) sid \<noteq> None \<and> confidence result \<noteq> None
                   \<longrightarrow> fst (mark_attendance d clk sid session result)
                         = Inl (Py IntegrityError_unique_attendance)))"
  using mark_attendance_unique [OF assms] verify_face_unique [OF assms]
    sync_offline_attendance_unique [OF assms]
    mark_attendance_rejects [where sid = sid and clk = clk and d = d and session = session
      and result = result]
  by blast

theorem one_attendance_row_per_day_witness:
  "unique_per_day (attendance marked_db)
   \<and> map a_student_id (attendance marked_db) = [id_A]
   \<and> map a_date (attendance marked_db) = [date_of 1030]
   \<and> mark_attendance marked_db \<lparr>CURRENT_TIMESTAMP = 1050, now = 1050\<rparr> id_A session_A matched_A
       = (Inl (Py IntegrityError_unique_attendance), marked_db)
   \<and> surface (Py IntegrityError_unique_attendance)
       = HTTPException 500 (Str_of IntegrityError_unique_attendance)"
proof -
  have u: "unique_per_day (attendance marked_db)"
    by (simp add: marked_db_eq unique_per_day_def)
  have ex: "list_ex (\<lambda>x. a_student_id x = id_A
               \<and> a_date x = date_of (CURRENT_TIMESTAMP \<lparr>CURRENT_TIMESTAMP = 1050, now = 1050\<rparr>))
              (attendance marked_db)"
    by (simp add: marked_db_eq date_of_def)
  have st: "map_of (students marked_db) id_A \<noteq> None \<and> confidence matched_A \<noteq> None"
    by (simp add: marked_db_eq sample_db_def matched_A_def)
  have "snd (mark_attendance marked_db \<lparr>CURRENT_TIMESTAMP = 1050, now = 1050\<rparr> id_A session_A
               matched_A) = marked_db
      \<and> fst (mark_attendance marked_db \<lparr>CURRENT_TIMESTAMP = 1050, now = 1050\<rparr> id_A session_A
               matched_A) = Inl (Py IntegrityError_unique_attendance)"
    using one_attendance_row_per_day [OF u, where sid = id_A
        and clk = "\<lparr>CURRENT_TIMESTAMP = 1050, now = 1050\<rparr>"
        and session = session_A and result = matched_A] ex st
    by blast
  then have "mark_attendance marked_db \<lparr>CURRENT_TIMESTAMP = 1050, now = 1050\<rparr> id_A session_A
               matched_A = (Inl (Py IntegrityError_unique_attendance), marked_db)"
    by (simp add: prod_eq_iff)
  then show ?thesis using u by (simp add: marked_db_eq date_of_def surface_def)
qed

section \<open>Offline batches: counts and rows\<close>

lemma item_face_no_match: "\<not> match (item_face cfg L r d record)"
  by (simp add: item_face_def bytes_never_match)

lemma execute_offline_insert_raises:
  "execute_offline_insert v t = Inl (Binding_unsupported_type ''datetime.time'')"
  by (simp add: execute_offline_insert_def bind_time_def)

text \<open>
  One step of the loop, whatever the face result and whatever the execution of the
  \<^verbatim>\<open>INSERT\<close> gives: one entry more, one counter more, and the table only grows.
\<close>

lemma sync_outcome_step:
  "success_count (sync_outcome L clk st record fr) + failure_count (sync_outcome L clk st record fr)
     = Suc (success_count st + failure_count st)"
  "failure_count (sync_outcome L clk st record fr) + length (filter raised (results st))
     = failure_count st + (if match fr then 0 else 1)
       + length (filter raised (results (sync_outcome L clk st record fr)))"
  "success_count (sync_outcome L clk st record fr) + length (filter i_success (results st))
     = success_count st + length (filter i_success (results (sync_outcome L clk st record fr)))"
  "\<exists>e. results (sync_outcome L clk st record fr) = results st @ [e]
       \<and> i_studentId e = o_studentId record
       \<and> (\<not> match fr \<longrightarrow> e = \<lparr>i_studentId = o_studentId record, i_success = False,
                                  i_message = Face_message (message fr)\<rparr>)"
  "\<exists>new. tbl (sync_outcome L clk st record fr) = tbl st @ new
       \<and> success_count (sync_outcome L clk st record fr) = success_count st + length new"
  by (auto simp add: sync_outcome_def raised_def execute_offline_insert_def insert_attendance_def
      split: sum.splits if_splits)




lemma sync_loop_results:
  "\<exists>rs. results (sync_loop L clk face st records) = results st @ rs
        \<and> map i_studentId rs = map o_studentId records
        \<and> (\<forall>i<length records. \<not> match (face (records ! i))
              \<longrightarrow> rs ! i = failed_item face (records ! i))"
proof (induction records arbitrary: st)
  case Nil
  then show ?case by simp
next
  case (Cons item rest)
  from sync_outcome_step(4) [of L clk st item "face item"]
  obtain e where e: "results (sync_outcome L clk st item (face item)) = results st @ [e]"
      "i_studentId e = o_studentId item"
      "\<not> match (face item) \<longrightarrow> e = failed_item face item"
    by (auto simp add: failed_item_def)
  from Cons [of "sync_outcome L clk st item (face item)"]
  obtain rs where rs: "results (sync_loop L clk face (sync_outcome L clk st item (face item)) rest)
        = results (sync_outcome L clk st item (face item)) @ rs"
      "map i_studentId rs = map o_studentId rest"
      "\<forall>i<length rest. \<not> match (face (rest ! i)) \<longrightarrow> rs ! i = failed_item face (rest ! i)"
    by blast
  have "\<forall>i<length (item # rest). \<not> match (face ((item # rest) ! i))
              \<longrightarrow> (e # rs) ! i = failed_item face ((item # rest) ! i)"
    using e(3) rs(3) by (auto simp add: nth_Cons split: nat.splits)
  then show ?case
    using e rs by (intro exI [of _ "e # rs"]) simp
qed


lemma sync_loop_length:
  "length (results (sync_loop L clk face st records)) = length (results st) + length records"
  using sync_loop_results [of L clk face st records]
  by (auto dest: arg_cong [where f = length])

lemma sync_offline_attendance_length:
  "length (r_results (fst (sync_offline_attendance cfg L r d clk records))) = length records
   \<and> r_total (fst (sync_offline_attendance cfg L r d clk records)) = length records"
  by (simp add: sync_offline_attendance_def Let_def sync_loop_length)



lemma sync_outcome_matched_A:
  "sync_outcome sample_libs clk empty_state offline_item_A matched_A =
     \<lparr>tbl = [],
      results = [\<lparr>i_studentId = id_A, i_success = False,
                  i_message = Error_processing (Binding_unsupported_type ''datetime.time'')\<rparr>],
      success_count = 0, failure_count = 1\<rparr>"
  by (simp add: sync_outcome_def matched_A_def offline_insert_values_def execute_offline_insert_raises
      empty_state_def offline_item_A_def)





lemma resolved_A: "resolved_time sample_libs clk offline_item_A = (2, 10)"
  by (simp add: resolved_time_def replace_Z_def offline_item_A_def sample_libs_def date_of_def
      time_of_def)

lemma resolved_B:
  "resolved_time sample_libs \<lparr>CURRENT_TIMESTAMP = 1030, now = 1030\<rparr> offline_item_B = (0, 1030)"
  by (simp add: resolved_time_def replace_Z_def offline_item_B_def sample_libs_def date_of_def
      time_of_def)

text \<open>
  C9. The claim is that the row of a matched offline item carries the method tag offline
  and that a batch is cut at a maximum of 50 items. The \<^verbatim>\<open>INSERT\<close> of the loop names the
  literal tag \<^verbatim>\<open>face_recognition\<close>, the default of the column, and for a matched item
  the table is as it was; and the handler never looks at
  \<^verbatim>\<open>MAX_OFFLINE_RECORDS_PER_BATCH\<close>: a batch of 51 items gets 51 results.
\<close>

theorem offline_tag_and_cap_counterexample:
  "offline_insert_values sample_libs \<lparr>CURRENT_TIMESTAMP = 1030, now = 1030\<rparr> offline_item_A
       matched_A
     = Inr \<lparr>p_student_id = id_A, p_student_name = ''Amrutha M'', p_date = 2,
            p_check_in_time = 10, l_method = ''face_recognition'', p_confidence_score = 100,
            l_is_offline = 1\<rparr>
   \<and> tbl (sync_outcome sample_libs \<lparr>CURRENT_TIMESTAMP = 1030, now = 1030\<rparr> empty_state
           offline_item_A matched_A) = []
   \<and> MAX_OFFLINE_RECORDS_PER_BATCH = 50
   \<and> length (r_results (fst (sync_offline_attendance default_config sample_libs two_enrolled
         sample_db \<lparr>CURRENT_TIMESTAMP = 1030, now = 1030\<rparr> (replicate 51 offline_item_A)))) = 51"
proof -
  have "offline_insert_values sample_libs \<lparr>CURRENT_TIMESTAMP = 1030, now = 1030\<rparr>
          offline_item_A matched_A
      = Inr \<lparr>p_student_id = id_A, p_student_name = ''Amrutha M'', p_date = 2,
             p_check_in_time = 10, l_method = ''face_recognition'', p_confidence_score = 100,
             l_is_offline = 1\<rparr>"
    by (simp add: offline_insert_values_def matched_A_def resolved_A)
  then show ?thesis
    by (simp add: sync_offline_attendance_length MAX_OFFLINE_RECORDS_PER_BATCH_def
        sync_outcome_matched_A)
qed

text \<open>
  C9, as the code has it: for an item whose face result is a match with identity, name
  and confidence, the loop issues the \<^verbatim>\<open>INSERT\<close> with that identity, name and confidence,
  the resolved date and time, the method tag \<^verbatim>\<open>face_recognition\<close> and \<^verbatim>\<open>is_offline\<close> 1,
  and counts the item by what the execution of that statement gives; and every item of
  a batch, whatever its size, gets a result.
\<close>

theorem offline_insert_issued:
  assumes "match fr" and "student_id fr = Some sid" and "student_name fr = Some name"
      and "confidence fr = Some c"
  shows "offline_insert_values L clk record fr =
           Inr \<lparr>p_student_id = sid, p_student_name = name,
                p_date = fst (resolved_time L clk record),
                p_check_in_time = snd (resolved_time L clk record),
                l_method = ''face_recognition'', p_confidence_score = c, l_is_offline = 1\<rparr>
       \<and> sync_outcome L clk st record fr =
           (case execute_offline_insert
                   \<lparr>p_student_id = sid, p_student_name = name,
                    p_date = fst (resolved_time L clk record),
                    p_check_in_time = snd (resolved_time L clk record),
                    l_method = ''face_recognition'', p_confidence_score = c, l_is_offline = 1\<rparr>
                   (tbl st) of
              Inr tbl' \<Rightarrow>
                st\<lparr>tbl := tbl',
                   results := results st @
                     [\<lparr>i_studentId = o_studentId record, i_success = True, i_message = Synced\<rparr>],
                   success_count := success_count st + 1\<rparr>
            | Inl e \<Rightarrow>
                st\<lparr>results := results st @
                     [\<lparr>i_studentId = o_studentId record, i_success = False,
                       i_message = Error_processing e\<rparr>],
                   failure_count := failure_count st + 1\<rparr>)
       \<and> length (r_results (fst (sync_offline_attendance cfg L r d clk records))) = length records
       \<and> r_total (fst (sync_offline_attendance cfg L r d clk records)) = length records"
  using assms sync_offline_attendance_length [of cfg L r d clk records]
  by (simp add: offline_insert_values_def sync_outcome_def)

theorem offline_insert_issued_witness:
  "match matched_A \<and> student_id matched_A = Some id_A
   \<and> student_name matched_A = Some ''Amrutha M'' \<and> confidence matched_A = Some 100
   \<and> resolved_time sample_libs \<lparr>CURRENT_TIMESTAMP = 1030, now = 1030\<rparr> offline_item_B = (0, 1030)
   \<and> offline_insert_values sample_libs \<lparr>CURRENT_TIMESTAMP = 1030, now = 1030\<rparr> offline_item_A
         matched_A
       = Inr \<lparr>p_student_id = id_A, p_student_name = ''Amrutha M'', p_date = 2,
              p_check_in_time = 10, l_method = ''face_recognition'', p_confidence_score = 100,
              l_is_offline = 1\<rparr>"
proof -
  have a: "match matched_A" by (simp add: matched_A_def)
  have b: "student_id matched_A = Some id_A" by (simp add: matched_A_def)
  have c: "student_name matched_A = Some ''Amrutha M''" by (simp add: matched_A_def)
  have e: "confidence matched_A = Some 100" by (simp add: matched_A_def)
  show ?thesis
    using offline_insert_issued [OF a b c e, of sample_libs
        "\<lparr>CURRENT_TIMESTAMP = 1030, now = 1030\<rparr>" offline_item_A] a b c e resolved_B
    by (simp add: resolved_A)
qed

text \<open>
  As the source stands no execution of the \<^verbatim>\<open>INSERT\<close> succeeds and no item has a match
  in the handler: every item of every batch is counted as failed and the table is as it
  was.
\<close>

lemma sync_loop_never_writes:
  "tbl (sync_loop L clk face st records) = tbl st
   \<and> success_count (sync_loop L clk face st records) = success_count st"
  by (induction records arbitrary: st)
     (simp_all add: sync_outcome_def execute_offline_insert_raises split: sum.splits)

lemma sync_offline_attendance_all_fail:
  "fst (sync_offline_attendance cfg L r d clk records) =
     \<lparr>r_results = map (failed_item (item_face cfg L r d)) records, r_total = length records,
      r_success = 0, r_failed = length records\<rparr>
   \<and> snd (sync_offline_attendance cfg L r d clk records) = d"
proof -
  have "sync_loop L clk (item_face cfg L r d) st records =
     st\<lparr>results := results st @ map (failed_item (item_face cfg L r d)) records,
        failure_count := failure_count st + length records\<rparr>" for st
    by (induction records arbitrary: st)
       (simp_all add: sync_outcome_def item_face_no_match failed_item_def)
  then show ?thesis by (simp add: sync_offline_attendance_def)
qed


end
